theory Spec2Isabelle
  imports Complex_Main
begin

section \<open>Python values shared by the services\<close>

text \<open>
  Python \<open>str\<close> values are modelled by \<open>string\<close>, holding the UTF-8 bytes of the text:
  emptiness, equality and concatenation agree with Python's on code points. The Korean
  message literals of the sources are therefore written byte by byte.

  An exception is a class tag with the text \<open>str(e)\<close>. The tags are the classes the
  handlers of the sources tell apart; \<open>KeyboardInterrupt\<close> stands for every class that
  derives from \<open>BaseException\<close> but not from \<open>Exception\<close>, which an
  \<open>except Exception\<close> clause lets through. A call that may raise returns \<open>exn + 'a\<close>,
  with \<open>Inl\<close> for the raised exception.
\<close>

datatype exn_class =
    FileNotFoundError
  | AuthenticationError
  | RateLimitError
  | APIConnectionError
  | IndexError
  | ValueError
  | OtherException
  | KeyboardInterrupt

datatype exn = Exn (cls: exn_class) (msg: string)

definition is_Exception :: "exn \<Rightarrow> bool" where
  "is_Exception e = (cls e \<noteq> KeyboardInterrupt)"

fun join :: "string \<Rightarrow> string list \<Rightarrow> string" where
  "join sep [] = []"
| "join sep [x] = x"
| "join sep (x # y # ys) = x @ sep @ join sep (y # ys)"

subsection \<open>Message literals\<close>

definition stt_file_not_found :: string where
  "stt_file_not_found =
   [CHR 0xEC, CHR 0x98, CHR 0xA4, CHR 0xEB, CHR 0x94, CHR 0x94, CHR 0xEC, CHR 0x98, CHR 0xA4,
    CHR '' '', CHR 0xED, CHR 0x8C, CHR 0x8C, CHR 0xEC, CHR 0x9D, CHR 0xBC, CHR 0xEC, CHR 0x9D,
    CHR 0x84, CHR '' '', CHR 0xEC, CHR 0xB0, CHR 0xBE, CHR 0xEC, CHR 0x9D, CHR 0x84, CHR '' '',
    CHR 0xEC, CHR 0x88, CHR 0x98, CHR '' '', CHR 0xEC, CHR 0x97, CHR 0x86, CHR 0xEC, CHR 0x8A,
    CHR 0xB5, CHR 0xEB, CHR 0x8B, CHR 0x88, CHR 0xEB, CHR 0x8B, CHR 0xA4, CHR ''.'']"

definition stt_auth_error :: string where
  "stt_auth_error =
   [CHR 0xEC, CHR 0x98, CHR 0xA4, CHR 0xEB, CHR 0xA5, CHR 0x98, CHR '':'', CHR '' '',
    CHR ''O'', CHR ''p'', CHR ''e'', CHR ''n'', CHR ''A'', CHR ''I'', CHR '' '', CHR ''A'',
    CHR ''P'', CHR ''I'', CHR '' '', CHR 0xED, CHR 0x82, CHR 0xA4, CHR 0xEA, CHR 0xB0,
    CHR 0x80, CHR '' '', CHR 0xEC, CHR 0x9E, CHR 0x98, CHR 0xEB, CHR 0xAA, CHR 0xBB, CHR 0xEB,
    CHR 0x90, CHR 0x98, CHR 0xEC, CHR 0x97, CHR 0x88, CHR 0xEA, CHR 0xB1, CHR 0xB0, CHR 0xEB,
    CHR 0x82, CHR 0x98, CHR '' '', CHR 0xEC, CHR 0x9C, CHR 0xA0, CHR 0xED, CHR 0x9A, CHR 0xA8,
    CHR 0xED, CHR 0x95, CHR 0x98, CHR 0xEC, CHR 0xA7, CHR 0x80, CHR '' '', CHR 0xEC, CHR 0x95,
    CHR 0x8A, CHR 0xEC, CHR 0x8A, CHR 0xB5, CHR 0xEB, CHR 0x8B, CHR 0x88, CHR 0xEB, CHR 0x8B,
    CHR 0xA4, CHR ''.'', CHR '' '', CHR 0xED, CHR 0x99, CHR 0x98, CHR 0xEA, CHR 0xB2, CHR 0xBD,
    CHR 0xEB, CHR 0xB3, CHR 0x80, CHR 0xEC, CHR 0x88, CHR 0x98, CHR 0xEB, CHR 0xA5, CHR 0xBC,
    CHR '' '', CHR 0xED, CHR 0x99, CHR 0x95, CHR 0xEC, CHR 0x9D, CHR 0xB8, CHR 0xED, CHR 0x95,
    CHR 0xB4, CHR 0xEC, CHR 0xA3, CHR 0xBC, CHR 0xEC, CHR 0x84, CHR 0xB8, CHR 0xEC, CHR 0x9A,
    CHR 0x94, CHR ''.'']"

definition stt_rate_limit :: string where
  "stt_rate_limit =
   [CHR 0xEC, CHR 0x98, CHR 0xA4, CHR 0xEB, CHR 0xA5, CHR 0x98, CHR '':'', CHR '' '',
    CHR ''A'', CHR ''P'', CHR ''I'', CHR '' '', CHR 0xEC, CHR 0x82, CHR 0xAC, CHR 0xEC,
    CHR 0x9A, CHR 0xA9, CHR 0xEB, CHR 0x9F, CHR 0x89, CHR '' '', CHR 0xED, CHR 0x95, CHR 0x9C,
    CHR 0xEB, CHR 0x8F, CHR 0x84, CHR 0xEB, CHR 0xA5, CHR 0xBC, CHR '' '', CHR 0xEC, CHR 0xB4,
    CHR 0x88, CHR 0xEA, CHR 0xB3, CHR 0xBC, CHR 0xED, CHR 0x96, CHR 0x88, CHR 0xEC, CHR 0x8A,
    CHR 0xB5, CHR 0xEB, CHR 0x8B, CHR 0x88, CHR 0xEB, CHR 0x8B, CHR 0xA4, CHR ''.'', CHR '' '',
    CHR 0xEC, CHR 0x9E, CHR 0xA0, CHR 0xEC, CHR 0x8B, CHR 0x9C, CHR '' '', CHR 0xED, CHR 0x9B,
    CHR 0x84, CHR '' '', CHR 0xEB, CHR 0x8B, CHR 0xA4, CHR 0xEC, CHR 0x8B, CHR 0x9C, CHR '' '',
    CHR 0xEC, CHR 0x8B, CHR 0x9C, CHR 0xEB, CHR 0x8F, CHR 0x84, CHR 0xED, CHR 0x95, CHR 0x98,
    CHR 0xEA, CHR 0xB1, CHR 0xB0, CHR 0xEB, CHR 0x82, CHR 0x98, CHR '' '', CHR 0xED, CHR 0x94,
    CHR 0x8C, CHR 0xEB, CHR 0x9E, CHR 0x9C, CHR 0xEC, CHR 0x9D, CHR 0x84, CHR '' '', CHR 0xED,
    CHR 0x99, CHR 0x95, CHR 0xEC, CHR 0x9D, CHR 0xB8, CHR 0xED, CHR 0x95, CHR 0xB4, CHR 0xEC,
    CHR 0xA3, CHR 0xBC, CHR 0xEC, CHR 0x84, CHR 0xB8, CHR 0xEC, CHR 0x9A, CHR 0x94, CHR ''.'']"

definition stt_connection_error :: string where
  "stt_connection_error =
   [CHR 0xEC, CHR 0x98, CHR 0xA4, CHR 0xEB, CHR 0xA5, CHR 0x98, CHR '':'', CHR '' '',
    CHR ''O'', CHR ''p'', CHR ''e'', CHR ''n'', CHR ''A'', CHR ''I'', CHR '' '', CHR 0xEC,
    CHR 0x84, CHR 0x9C, CHR 0xEB, CHR 0xB2, CHR 0x84, CHR 0xEC, CHR 0x97, CHR 0x90, CHR '' '',
    CHR 0xEC, CHR 0x97, CHR 0xB0, CHR 0xEA, CHR 0xB2, CHR 0xB0, CHR 0xED, CHR 0x95, CHR 0xA0,
    CHR '' '', CHR 0xEC, CHR 0x88, CHR 0x98, CHR '' '', CHR 0xEC, CHR 0x97, CHR 0x86, CHR 0xEC,
    CHR 0x8A, CHR 0xB5, CHR 0xEB, CHR 0x8B, CHR 0x88, CHR 0xEB, CHR 0x8B, CHR 0xA4, CHR ''.'',
    CHR '' '', CHR 0xEC, CHR 0x9D, CHR 0xB8, CHR 0xED, CHR 0x84, CHR 0xB0, CHR 0xEB, CHR 0x84,
    CHR 0xB7, CHR '' '', CHR 0xEC, CHR 0x97, CHR 0xB0, CHR 0xEA, CHR 0xB2, CHR 0xB0, CHR 0xEC,
    CHR 0x9D, CHR 0x84, CHR '' '', CHR 0xED, CHR 0x99, CHR 0x95, CHR 0xEC, CHR 0x9D, CHR 0xB8,
    CHR 0xED, CHR 0x95, CHR 0xB4, CHR 0xEC, CHR 0xA3, CHR 0xBC, CHR 0xEC, CHR 0x84, CHR 0xB8,
    CHR 0xEC, CHR 0x9A, CHR 0x94, CHR ''.'']"

definition stt_unknown_prefix :: string where
  "stt_unknown_prefix =
   [CHR 0xEC, CHR 0x9D, CHR 0x8C, CHR 0xEC, CHR 0x84, CHR 0xB1, CHR '' '', CHR 0xEB, CHR 0xB3,
    CHR 0x80, CHR 0xED, CHR 0x99, CHR 0x98, CHR '' '', CHR 0xEC, CHR 0xA4, CHR 0x91, CHR '' '',
    CHR 0xEC, CHR 0x95, CHR 0x8C, CHR '' '', CHR 0xEC, CHR 0x88, CHR 0x98, CHR '' '', CHR 0xEC,
    CHR 0x97, CHR 0x86, CHR 0xEB, CHR 0x8A, CHR 0x94, CHR '' '', CHR 0xEC, CHR 0x98, CHR 0xA4,
    CHR 0xEB, CHR 0xA5, CHR 0x98, CHR 0xEA, CHR 0xB0, CHR 0x80, CHR '' '', CHR 0xEB, CHR 0xB0,
    CHR 0x9C, CHR 0xEC, CHR 0x83, CHR 0x9D, CHR 0xED, CHR 0x96, CHR 0x88, CHR 0xEC, CHR 0x8A,
    CHR 0xB5, CHR 0xEB, CHR 0x8B, CHR 0x88, CHR 0xEB, CHR 0x8B, CHR 0xA4, CHR '':'', CHR '' '']"

definition moderation_violation_prefix :: string where
  "moderation_violation_prefix =
   [CHR 0xEC, CHR 0x9E, CHR 0x85, CHR 0xEB, CHR 0xA0, CHR 0xA5, CHR 0xEB, CHR 0x90, CHR 0x9C,
    CHR '' '', CHR 0xEB, CHR 0x82, CHR 0xB4, CHR 0xEC, CHR 0x9A, CHR 0xA9, CHR 0xEC, CHR 0x9D,
    CHR 0xB4, CHR '' '', CHR 0xEC, CHR 0x95, CHR 0x88, CHR 0xEC, CHR 0xA0, CHR 0x84, CHR '' '',
    CHR 0xEC, CHR 0xA0, CHR 0x95, CHR 0xEC, CHR 0xB1, CHR 0x85, CHR 0xEC, CHR 0x9D, CHR 0x84,
    CHR '' '', CHR 0xEC, CHR 0x9C, CHR 0x84, CHR 0xEB, CHR 0xB0, CHR 0x98, CHR 0xED, CHR 0x95,
    CHR 0xA0, CHR '' '', CHR 0xEC, CHR 0x88, CHR 0x98, CHR '' '', CHR 0xEC, CHR 0x9E, CHR 0x88,
    CHR 0xEC, CHR 0x8A, CHR 0xB5, CHR 0xEB, CHR 0x8B, CHR 0x88, CHR 0xEB, CHR 0x8B, CHR 0xA4,
    CHR '':'', CHR '' '']"

definition moderation_safe :: string where
  "moderation_safe =
   [CHR 0xEC, CHR 0x95, CHR 0x88, CHR 0xEC, CHR 0xA0, CHR 0x84, CHR 0xED, CHR 0x95, CHR 0xA9,
    CHR 0xEB, CHR 0x8B, CHR 0x88, CHR 0xEB, CHR 0x8B, CHR 0xA4, CHR ''.'']"

definition moderation_error_prefix :: string where
  "moderation_error_prefix =
   [CHR 0xEC, CHR 0x95, CHR 0x88, CHR 0xEC, CHR 0xA0, CHR 0x84, CHR 0xEC, CHR 0x84, CHR 0xB1,
    CHR '' '', CHR 0xEA, CHR 0xB2, CHR 0x80, CHR 0xEC, CHR 0x82, CHR 0xAC, CHR '' '', CHR 0xEC,
    CHR 0xA4, CHR 0x91, CHR '' '', CHR 0xEC, CHR 0x98, CHR 0xA4, CHR 0xEB, CHR 0xA5, CHR 0x98,
    CHR 0xEA, CHR 0xB0, CHR 0x80, CHR '' '', CHR 0xEB, CHR 0xB0, CHR 0x9C, CHR 0xEC, CHR 0x83,
    CHR 0x9D, CHR 0xED, CHR 0x96, CHR 0x88, CHR 0xEC, CHR 0x8A, CHR 0xB5, CHR 0xEB, CHR 0x8B,
    CHR 0x88, CHR 0xEB, CHR 0x8B, CHR 0xA4, CHR '':'', CHR '' '']"

definition report_error_prefix :: string where
  "report_error_prefix =
   [CHR ''R'', CHR ''A'', CHR ''G'', CHR '' '', CHR 0xEB, CHR 0xA6, CHR 0xAC, CHR 0xED,
    CHR 0x8F, CHR 0xAC, CHR 0xED, CHR 0x8A, CHR 0xB8, CHR '' '', CHR 0xEC, CHR 0x83, CHR 0x9D,
    CHR 0xEC, CHR 0x84, CHR 0xB1, CHR '' '', CHR 0xEC, CHR 0xA4, CHR 0x91, CHR '' '', CHR 0xEC,
    CHR 0x98, CHR 0xA4, CHR 0xEB, CHR 0xA5, CHR 0x98, CHR 0xEA, CHR 0xB0, CHR 0x80, CHR '' '',
    CHR 0xEB, CHR 0xB0, CHR 0x9C, CHR 0xEC, CHR 0x83, CHR 0x9D, CHR 0xED, CHR 0x96, CHR 0x88,
    CHR 0xEC, CHR 0x8A, CHR 0xB5, CHR 0xEB, CHR 0x8B, CHR 0x88, CHR 0xEB, CHR 0x8B, CHR 0xA4,
    CHR '':'', CHR '' '']"

definition report_no_retriever :: string where
  "report_no_retriever =
   [CHR ''R'', CHR ''A'', CHR ''G'', CHR '' '', CHR 0xEB, CHR 0xA6, CHR 0xAC, CHR 0xED,
    CHR 0x8F, CHR 0xAC, CHR 0xED, CHR 0x8A, CHR 0xB8, CHR 0xEB, CHR 0xA5, CHR 0xBC, CHR '' '',
    CHR 0xEC, CHR 0x83, CHR 0x9D, CHR 0xEC, CHR 0x84, CHR 0xB1, CHR 0xED, CHR 0x95, CHR 0x98,
    CHR 0xEB, CHR 0xA0, CHR 0xA4, CHR 0xEB, CHR 0xA9, CHR 0xB4, CHR '' '', CHR ''r'',
    CHR ''e'', CHR ''t'', CHR ''r'', CHR ''i'', CHR ''e'', CHR ''v'', CHR ''e'', CHR ''r'',
    CHR '' '', CHR 0xEA, CHR 0xB0, CHR 0x9D, CHR 0xEC, CHR 0xB2, CHR 0xB4, CHR 0xEA, CHR 0xB0,
    CHR 0x80, CHR '' '', CHR 0xED, CHR 0x95, CHR 0x84, CHR 0xEC, CHR 0x9A, CHR 0x94, CHR 0xED,
    CHR 0x95, CHR 0xA9, CHR 0xEB, CHR 0x8B, CHR 0x88, CHR 0xEB, CHR 0x8B, CHR 0xA4, CHR ''.'']"

section \<open>services/stt\_service.py\<close>

text \<open>
  \<open>transcribe_audio\<close> opens the file and calls the transcription API. \<open>fs\<close> is the set
  of paths that exist, \<open>api\<close> the outcome of \<open>client.audio.transcriptions.create\<close>.
  Opening a missing file raises \<open>FileNotFoundError\<close>. The handlers are tried in the
  order of the source; every \<open>Exception\<close> becomes a returned message.
\<close>

definition transcribe_audio :: "string set \<Rightarrow> string \<Rightarrow> exn + string \<Rightarrow> exn + string" where
  "transcribe_audio fs audio_path api =
     (let attempt = (if audio_path \<notin> fs then Inl (Exn FileNotFoundError audio_path) else api)
      in case attempt of
           Inr transcript_text \<Rightarrow> Inr transcript_text
         | Inl e \<Rightarrow>
             (case cls e of
                FileNotFoundError \<Rightarrow> Inr stt_file_not_found
              | AuthenticationError \<Rightarrow> Inr stt_auth_error
              | RateLimitError \<Rightarrow> Inr stt_rate_limit
              | APIConnectionError \<Rightarrow> Inr stt_connection_error
              | KeyboardInterrupt \<Rightarrow> Inl e
              | _ \<Rightarrow> Inr (stt_unknown_prefix @ msg e)))"

section \<open>services/moderation\_service.py\<close>

record moderation_result =
  mr_flagged :: bool
  categories :: "(string \<times> bool) list"

datatype details = Dump moderation_result | ErrorDetail string

record safety_result =
  flagged :: bool
  sr_text :: string
  sr_details :: details

text \<open>
  \<open>check_text_safety\<close>: \<open>api\<close> is the outcome of \<open>client.moderations.create(input=text)\<close>,
  the list \<open>response.results\<close> when it returns. Reading \<open>results[0]\<close> of an empty list
  raises \<open>IndexError\<close> inside the \<open>try\<close>.
\<close>

definition moderation_error :: "exn \<Rightarrow> safety_result" where
  "moderation_error e =
     \<lparr>flagged = True, sr_text = moderation_error_prefix @ msg e, sr_details = ErrorDetail (msg e)\<rparr>"

definition check_text_safety :: "string \<Rightarrow> exn + moderation_result list \<Rightarrow> exn + safety_result" where
  "check_text_safety text api =
     (let attempt =
        (case api of
           Inl e \<Rightarrow> Inl e
         | Inr [] \<Rightarrow> Inl (Exn IndexError ''list index out of range'')
         | Inr (moderation_result # _) \<Rightarrow>
             (if mr_flagged moderation_result then
                (let flagged_categories = map fst (filter snd (categories moderation_result))
                 in Inr \<lparr>flagged = True,
                         sr_text = moderation_violation_prefix @ join '', '' flagged_categories,
                         sr_details = Dump moderation_result\<rparr>)
              else
                Inr \<lparr>flagged = False, sr_text = moderation_safe,
                     sr_details = Dump moderation_result\<rparr>))
      in case attempt of
           Inr r \<Rightarrow> Inr r
         | Inl e \<Rightarrow> (if is_Exception e then Inr (moderation_error e) else Inl e))"

section \<open>services/report\_generator\_service.py\<close>

text \<open>
  The pydantic models \<open>Emotion\<close> and \<open>Report\<close> declare field types and descriptions only.
  \<open>score\<close> is a Python float that the service stores and never computes with; it is
  modelled by a real number. \<open>report_object.dict()\<close> is a dict whose keys are exactly the
  three fields, as is the dict literal of the \<open>except\<close> branch, so the record also
  models the returned dict.
\<close>

record Emotion =
  emotion :: string
  score :: real

record Report =
  emotions :: "Emotion list"
  report_keywords :: "string list"
  analysis_summary :: string

text \<open>
  \<open>generate_report_with_rag\<close>: \<open>retriever\<close> tells whether \<open>self.retriever\<close> is truthy,
  \<open>chain\<close> is the outcome of \<open>chain.invoke(dream_text)\<close>: the schema-parsed \<open>Report\<close>
  object, or the exception raised by retrieval, the model call or the output parser.
\<close>

definition generate_report_with_rag :: "bool \<Rightarrow> string \<Rightarrow> exn + Report \<Rightarrow> exn + Report" where
  "generate_report_with_rag retriever dream_text chain =
     (if \<not> retriever then Inl (Exn ValueError report_no_retriever)
      else case chain of
             Inr report_object \<Rightarrow> Inr report_object
           | Inl e \<Rightarrow>
               (if is_Exception e then
                  Inr \<lparr>emotions = [], report_keywords = [], analysis_summary = report_error_prefix @ msg e\<rparr>
                else Inl e))"

section \<open>services/dream\_analyzer\_service.py\<close>

record KeywordMapping =
  original :: string
  transformed :: string

record ReconstructionOutput =
  out_reconstructed_prompt :: string
  out_transformation_summary :: string
  out_keyword_mappings :: "KeywordMapping list"

text \<open>\<open>mapping.dict()\<close>: a dict with the two field names as keys, kept as an association list.\<close>

definition dict_of_mapping :: "KeywordMapping \<Rightarrow> (string \<times> string) list" where
  "dict_of_mapping mapping = [(''original'', original mapping), (''transformed'', transformed mapping)]"

text \<open>\<open>d.get(key, default)\<close> on such a dict.\<close>

definition get :: "(string \<times> string) list \<Rightarrow> string \<Rightarrow> string \<Rightarrow> string" where
  "get d key dflt = (case map_of d key of Some v \<Rightarrow> v | None \<Rightarrow> dflt)"

text \<open>
  \<open>create_reconstructed_prompt_and_analysis\<close>: the prompt text built from the report only
  feeds the model call; \<open>chain\<close> is the outcome of \<open>chain.invoke\<close>, the schema-parsed
  \<open>ReconstructionOutput\<close> or the exception raised, which this method does not catch.
\<close>

definition create_reconstructed_prompt_and_analysis ::
  "string \<Rightarrow> Report \<Rightarrow> exn + ReconstructionOutput
     \<Rightarrow> exn + (string \<times> string \<times> (string \<times> string) list list)" where
  "create_reconstructed_prompt_and_analysis dream_text dream_report chain =
     (case chain of
        Inl e \<Rightarrow> Inl e
      | Inr response \<Rightarrow>
          (let keyword_mappings_dict = map dict_of_mapping (out_keyword_mappings response)
           in Inr (out_reconstructed_prompt response, out_transformation_summary response,
                   keyword_mappings_dict)))"

section \<open>app.py: the session and one run of the script\<close>

text \<open>
  \<open>st.session_state\<close> holds the twelve keys of \<open>session_defaults\<close>; the script fills
  every missing key on each run and never deletes one, so the session is a record that
  starts as \<open>session_defaults\<close>.
\<close>

record session =
  dream_text :: string
  original_dream_text :: string
  analysis_started :: bool
  audio_processed :: bool
  dream_report :: "Report option"
  nightmare_prompt :: string
  reconstructed_prompt :: string
  transformation_summary :: string
  keyword_mappings :: "(string \<times> string) list list"
  nightmare_image_url :: string
  reconstructed_image_url :: string
  nightmare_keywords :: "string list"

definition session_defaults :: session where
  "session_defaults =
     \<lparr>dream_text = [], original_dream_text = [], analysis_started = False,
      audio_processed = False, dream_report = None, nightmare_prompt = [],
      reconstructed_prompt = [], transformation_summary = [], keyword_mappings = [],
      nightmare_image_url = [], reconstructed_image_url = [], nightmare_keywords = []\<rparr>"

text \<open>
  What one run of the script receives from outside: the widget values, and the outcome
  of each external call the run may make. Creating the temporary file either fails
  before a file exists, or creates the file and fails while writing (the name is then
  never assigned to \<open>audio_path\<close>), or succeeds with the file's name.
\<close>

datatype temp_outcome =
    TempCreateFails exn
  | TempWriteFails string exn
  | TempOk string

record inputs =
  wav_audio_data :: "nat list option"
  uploaded_file :: "(string \<times> nat list) option"
  click_analyze :: bool
  click_nightmare :: bool
  click_reconstruct :: bool
  temp_file :: temp_outcome
  stt_api :: "exn + string"
  moderation_api :: "exn + moderation_result list"
  retriever_present :: bool
  report_chain :: "exn + Report"
  nightmare_prompt_result :: "exn + string"
  reconstruction_chain :: "exn + ReconstructionOutput"
  image_result :: "exn + string"

text \<open>
  The calls a run makes, in order. \<open>Moderate t r\<close> records \<open>check_text_safety(t)\<close> with
  the \<open>flagged\<close> value it returned, or \<open>None\<close> when it raised.
\<close>

datatype event =
    TempFileWritten string
  | Transcribe string
  | Moderate string "bool option"
  | RemoveFile string
  | GenerateReport string
  | CreateNightmarePrompt string
  | CreateReconstruction string
  | GenerateImage string

record world =
  sess :: session
  files :: "string set"
  trace :: "event list"

text \<open>
  How a run ends: it reaches the end of the script, \<open>st.rerun()\<close> stops it, or an
  exception no handler catches stops it. Session changes made before the stop persist.
\<close>

datatype ending = Completed | Rerun | Crashed exn

definition emit :: "event \<Rightarrow> world \<Rightarrow> world" where
  "emit ev w = w\<lparr>trace := trace w @ [ev]\<rparr>"

text \<open>Lines 110 to 118: the recording wins unless a file is uploaded too.\<close>

definition audio_input :: "inputs \<Rightarrow> (nat list \<times> string) option" where
  "audio_input inp =
     (let a1 = (case wav_audio_data inp of
                  Some wav \<Rightarrow> (if wav \<noteq> [] then Some (wav, ''recorded_dream.wav'') else None)
                | None \<Rightarrow> None)
      in case uploaded_file inp of
           Some (name, bytes) \<Rightarrow> Some (bytes, name)
         | None \<Rightarrow> a1)"

text \<open>Lines 132 to 138: the moderation gate.\<close>

definition moderation_gate :: "string \<Rightarrow> safety_result \<Rightarrow> session \<Rightarrow> session" where
  "moderation_gate transcribed_text safety_result s =
     (let s1 = (if \<not> flagged safety_result then s\<lparr>dream_text := transcribed_text\<rparr>
                else s\<lparr>dream_text := []\<rparr>)
      in s1\<lparr>audio_processed := True\<rparr>)"

text \<open>
  The body of the \<open>try\<close> (lines 125 to 138). It returns the value of \<open>audio_path\<close> when
  the body stops, the exception that stopped it if any, and the world.
\<close>

definition audio_try :: "inputs \<Rightarrow> world \<Rightarrow> string option \<times> exn option \<times> world" where
  "audio_try inp w =
     (case temp_file inp of
        TempCreateFails e \<Rightarrow> (None, Some e, w)
      | TempWriteFails p e \<Rightarrow> (None, Some e, w\<lparr>files := insert p (files w)\<rparr>)
      | TempOk p \<Rightarrow>
          (let w1 = emit (TempFileWritten p) (w\<lparr>files := insert p (files w)\<rparr>);
               w2 = emit (Transcribe p) w1
           in case transcribe_audio (files w2) p (stt_api inp) of
                Inl e \<Rightarrow> (Some p, Some e, w2)
              | Inr transcribed_text \<Rightarrow>
                  (let w3 = w2\<lparr>sess := (sess w2)\<lparr>original_dream_text := transcribed_text\<rparr>\<rparr>
                   in case check_text_safety transcribed_text (moderation_api inp) of
                        Inl e \<Rightarrow> (Some p, Some e, emit (Moderate transcribed_text None) w3)
                      | Inr safety_result \<Rightarrow>
                          (let w4 = emit (Moderate transcribed_text (Some (flagged safety_result))) w3
                           in (Some p, None,
                               w4\<lparr>sess := moderation_gate transcribed_text safety_result (sess w4)\<rparr>)))))"

text \<open>The \<open>finally\<close> clause (lines 139 to 141).\<close>

definition audio_finally :: "string option \<Rightarrow> world \<Rightarrow> world" where
  "audio_finally audio_path w =
     (case audio_path of
        None \<Rightarrow> w
      | Some p \<Rightarrow>
          (if p \<noteq> [] \<and> p \<in> files w then emit (RemoveFile p) (w\<lparr>files := files w - {p}\<rparr>)
           else w))"

text \<open>
  Each block of the script returns \<open>Some\<close> ending when it stops the run and \<open>None\<close> when
  the run goes on to the next block.

  Lines 121 to 142: audio processing.
\<close>

definition audio_block :: "inputs \<Rightarrow> world \<Rightarrow> ending option \<times> world" where
  "audio_block inp w =
     (case audio_input inp of
        None \<Rightarrow> (None, w)
      | Some (audio_bytes, file_name) \<Rightarrow>
          (if audio_bytes \<noteq> [] \<and> \<not> audio_processed (sess w) then
             (let w0 = w\<lparr>sess := session_defaults\<rparr>
              in case audio_try inp w0 of
                   (audio_path, exc, w1) \<Rightarrow>
                     (let w2 = audio_finally audio_path w1
                      in case exc of
                           Some e \<Rightarrow> (Some (Crashed e), w2)
                         | None \<Rightarrow> (Some Rerun, w2)))
           else (None, w)))"

text \<open>Lines 145 to 154: the confirmation button.\<close>

definition analysis_block :: "inputs \<Rightarrow> world \<Rightarrow> ending option \<times> world" where
  "analysis_block inp w =
     (let s = sess w
      in if original_dream_text s \<noteq> [] then
           (if dream_text s \<noteq> [] \<and> \<not> analysis_started s then
              (if click_analyze inp then (Some Rerun, w\<lparr>sess := s\<lparr>analysis_started := True\<rparr>\<rparr>)
               else (None, w))
            else (None, w))
         else (None, w))"

text \<open>Lines 157 to 166: report generation.\<close>

definition report_block :: "inputs \<Rightarrow> world \<Rightarrow> ending option \<times> world" where
  "report_block inp w =
     (let s = sess w
      in if analysis_started s \<and> dream_report s = None then
           (if original_dream_text s \<noteq> [] then
              (let w1 = emit (GenerateReport (original_dream_text s)) w
               in case generate_report_with_rag (retriever_present inp) (original_dream_text s)
                         (report_chain inp) of
                    Inl e \<Rightarrow> (Some (Crashed e), w1)
                  | Inr report \<Rightarrow>
                      (Some Rerun,
                       w1\<lparr>sess := s\<lparr>dream_report := Some report,
                                     nightmare_keywords := report_keywords report\<rparr>\<rparr>))
            else (None, w\<lparr>sess := s\<lparr>analysis_started := False\<rparr>\<rparr>))
         else (None, w))"

text \<open>
  Lines 169 to 210: the two image buttons. \<open>create_nightmare_prompt\<close> and
  \<open>generate_image_from_prompt\<close> are taken at their boundary: \<open>nightmare_prompt_result\<close>
  and \<open>image_result\<close> are what the calls return or raise.
\<close>

definition image_block :: "inputs \<Rightarrow> world \<Rightarrow> ending option \<times> world" where
  "image_block inp w =
     (let s = sess w
      in case dream_report s of
           None \<Rightarrow> (None, w)
         | Some report \<Rightarrow>
             (if click_nightmare inp then
                (let w1 = emit (CreateNightmarePrompt (original_dream_text s)) w
                 in case nightmare_prompt_result inp of
                      Inl e \<Rightarrow> (Some (Crashed e), w1)
                    | Inr prompt \<Rightarrow>
                        (let w2 = emit (GenerateImage prompt)
                                    (w1\<lparr>sess := s\<lparr>nightmare_prompt := prompt\<rparr>\<rparr>)
                         in case image_result inp of
                              Inl e \<Rightarrow> (Some (Crashed e), w2)
                            | Inr url \<Rightarrow>
                                (Some Rerun, w2\<lparr>sess := (sess w2)\<lparr>nightmare_image_url := url\<rparr>\<rparr>)))
              else if click_reconstruct inp then
                (let w1 = emit (CreateReconstruction (original_dream_text s)) w
                 in case create_reconstructed_prompt_and_analysis (original_dream_text s) report
                           (reconstruction_chain inp) of
                      Inl e \<Rightarrow> (Some (Crashed e), w1)
                    | Inr (prompt, summary, mappings) \<Rightarrow>
                        (let w2 = emit (GenerateImage prompt)
                                    (w1\<lparr>sess := s\<lparr>reconstructed_prompt := prompt,
                                                   transformation_summary := summary,
                                                   keyword_mappings := mappings\<rparr>\<rparr>)
                         in case image_result inp of
                              Inl e \<Rightarrow> (Some (Crashed e), w2)
                            | Inr url \<Rightarrow>
                                (Some Rerun,
                                 w2\<lparr>sess := (sess w2)\<lparr>reconstructed_image_url := url\<rparr>\<rparr>)))
              else (None, w)))"

text \<open>One run of the script: the blocks in order, until one stops the run.\<close>

definition script_run :: "inputs \<Rightarrow> world \<Rightarrow> ending \<times> world" where
  "script_run inp w =
     (case audio_block inp w of
        (Some e, w1) \<Rightarrow> (e, w1)
      | (None, w1) \<Rightarrow>
          (case analysis_block inp w1 of
             (Some e, w2) \<Rightarrow> (e, w2)
           | (None, w2) \<Rightarrow>
               (case report_block inp w2 of
                  (Some e, w3) \<Rightarrow> (e, w3)
                | (None, w3) \<Rightarrow>
                    (case image_block inp w3 of
                       (Some e, w4) \<Rightarrow> (e, w4)
                     | (None, w4) \<Rightarrow> (Completed, w4)))))"

text \<open>A session: the runs of the script one after another, from the default session.\<close>

definition initial_world :: "string set \<Rightarrow> world" where
  "initial_world fs = \<lparr>sess = session_defaults, files = fs, trace = []\<rparr>"

fun run_all :: "inputs list \<Rightarrow> world \<Rightarrow> world" where
  "run_all [] w = w"
| "run_all (inp # inps) w = run_all inps (snd (script_run inp w))"

inductive reachable :: "world \<Rightarrow> bool" where
  init: "reachable (initial_world fs)"
| step: "reachable w \<Longrightarrow> reachable (snd (script_run inp w))"

section \<open>Properties of the specification, as predicates\<close>

text \<open>The contract the specification gives for keyword mappings, on the returned dicts.\<close>

definition mappings_ok :: "(string \<times> string) list list \<Rightarrow> bool" where
  "mappings_ok ms =
     (3 \<le> length ms \<and> length ms \<le> 5 \<and>
      (\<forall>d \<in> set ms. get d ''transformed'' [] \<noteq> get d ''original'' []))"

text \<open>The same contract on the schema-parsed model output.\<close>

definition output_ok :: "ReconstructionOutput \<Rightarrow> bool" where
  "output_ok response =
     (3 \<le> length (out_keyword_mappings response) \<and>
      length (out_keyword_mappings response) \<le> 5 \<and>
      (\<forall>m \<in> set (out_keyword_mappings response). transformed m \<noteq> original m))"

text \<open>The invariants the specification gives for a report.\<close>

definition report_ok :: "Report \<Rightarrow> bool" where
  "report_ok d =
     ((\<forall>e \<in> set (emotions d). 0 \<le> score e \<and> score e \<le> 1 \<and> emotion e \<noteq> []) \<and>
      (emotions d \<noteq> [] \<longrightarrow> report_keywords d \<noteq> []))"

text \<open>
  The most recent moderation in a trace (text and outcome), starting from \<open>m\<close>, and the
  ordering property of a trace: every \<open>GenerateReport t\<close> comes when the most recent
  moderation was of \<open>t\<close> and returned \<open>flagged = False\<close>.
\<close>

fun last_moderation :: "(string \<times> bool option) option \<Rightarrow> event list \<Rightarrow> (string \<times> bool option) option" where
  "last_moderation m [] = m"
| "last_moderation m (Moderate t r # es) = last_moderation (Some (t, r)) es"
| "last_moderation m (_ # es) = last_moderation m es"

fun gen_after_pass :: "(string \<times> bool option) option \<Rightarrow> event list \<Rightarrow> bool" where
  "gen_after_pass m [] = True"
| "gen_after_pass m (Moderate t r # es) = gen_after_pass (Some (t, r)) es"
| "gen_after_pass m (GenerateReport t # es) = (m = Some (t, Some False) \<and> gen_after_pass m es)"
| "gen_after_pass m (_ # es) = gen_after_pass m es"

text \<open>
  The invariant of the session: analysis is started only on a non-empty working text;
  a non-empty working text is the transcript and is the text the most recent moderation
  passed; the trace is ordered.
\<close>

definition session_inv :: "world \<Rightarrow> bool" where
  "session_inv w =
     ((analysis_started (sess w) \<longrightarrow> dream_text (sess w) \<noteq> []) \<and>
      (dream_text (sess w) \<noteq> [] \<longrightarrow>
         dream_text (sess w) = original_dream_text (sess w) \<and>
         last_moderation None (trace w) = Some (dream_text (sess w), Some False)) \<and>
      gen_after_pass None (trace w))"

text \<open>The events one run adds to the trace, and the calls of the report generator among them.\<close>

definition new_events :: "inputs \<Rightarrow> world \<Rightarrow> event list" where
  "new_events inp w = drop (length (trace w)) (trace (snd (script_run inp w)))"

fun is_GenerateReport :: "event \<Rightarrow> bool" where
  "is_GenerateReport (GenerateReport t) = True"
| "is_GenerateReport _ = False"


section \<open>Concrete inputs\<close>

definition identity_output :: ReconstructionOutput where
  "identity_output =
     \<lparr>out_reconstructed_prompt = ''a calm forest'', out_transformation_summary = ''s'',
      out_keyword_mappings = [\<lparr>original = ''wolf'', transformed = ''wolf''\<rparr>]\<rparr>"

definition three_mappings :: ReconstructionOutput where
  "three_mappings =
     \<lparr>out_reconstructed_prompt = ''p'', out_transformation_summary = ''s'',
      out_keyword_mappings =
        [\<lparr>original = ''wolf'', transformed = ''dog''\<rparr>,
         \<lparr>original = ''dark'', transformed = ''dawn''\<rparr>,
         \<lparr>original = ''fall'', transformed = ''fly''\<rparr>]\<rparr>"

definition empty_report :: Report where
  "empty_report = \<lparr>emotions = [], report_keywords = [], analysis_summary = []\<rparr>"

definition out_of_range_report :: Report where
  "out_of_range_report =
     \<lparr>emotions = [\<lparr>emotion = [], score = 3 / 2\<rparr>], report_keywords = [],
      analysis_summary = ''s''\<rparr>"

definition fear_report :: Report where
  "fear_report =
     \<lparr>emotions = [\<lparr>emotion = ''fear'', score = 4 / 5\<rparr>],
      report_keywords = [''forest'', ''shadow''], analysis_summary = ''s''\<rparr>"

text \<open>Inputs of single runs. The audio widget keeps its value from run to run.\<close>

definition quiet_inputs :: inputs where
  "quiet_inputs =
     \<lparr>wav_audio_data = None, uploaded_file = None, click_analyze = False,
      click_nightmare = False, click_reconstruct = False,
      temp_file = TempOk ''/tmp/tmpa1.wav'', stt_api = Inr ''a wolf chased me'',
      moderation_api = Inr [\<lparr>mr_flagged = False, categories = [(''violence'', False)]\<rparr>],
      retriever_present = True, report_chain = Inr fear_report,
      nightmare_prompt_result = Inr ''a dark forest'',
      reconstruction_chain = Inr three_mappings,
      image_result = Inr ''https://img.example/1.png''\<rparr>"

definition audio_inputs :: inputs where
  "audio_inputs = quiet_inputs\<lparr>wav_audio_data := Some [82, 73, 70, 70]\<rparr>"

definition flagged_inputs :: inputs where
  "flagged_inputs =
     audio_inputs\<lparr>moderation_api :=
       Inr [\<lparr>mr_flagged = True, categories = [(''violence'', True)]\<rparr>]\<rparr>"

definition analyze_inputs :: inputs where
  "analyze_inputs = audio_inputs\<lparr>click_analyze := True\<rparr>"

definition nightmare_inputs :: inputs where
  "nightmare_inputs = audio_inputs\<lparr>click_nightmare := True\<rparr>"

definition new_audio_inputs :: inputs where
  "new_audio_inputs =
     quiet_inputs\<lparr>uploaded_file := Some (''second.wav'', [82, 73, 70, 70, 1]),
       temp_file := TempOk ''/tmp/tmpb2.wav'', stt_api := Inr ''I was falling''\<rparr>"

definition stt_failure_inputs :: inputs where
  "stt_failure_inputs = audio_inputs\<lparr>stt_api := Inl (Exn APIConnectionError ''Connection error.'')\<rparr>"

definition report_failure_inputs :: inputs where
  "report_failure_inputs =
     audio_inputs\<lparr>report_chain := Inl (Exn OtherException ''Invalid json output'')\<rparr>"

definition interrupted_inputs :: inputs where
  "interrupted_inputs = audio_inputs\<lparr>moderation_api := Inl (Exn KeyboardInterrupt [])\<rparr>"

definition moderation_down_inputs :: inputs where
  "moderation_down_inputs =
     audio_inputs\<lparr>moderation_api := Inl (Exn APIConnectionError ''Connection error.'')\<rparr>"




definition failed_transcript_world :: world where
  "failed_transcript_world =
     run_all [stt_failure_inputs, analyze_inputs, audio_inputs] (initial_world {})"

section \<open>The prompt synthesizer: keyword mappings\<close>

lemma get_dict_of_mapping:
  "get (dict_of_mapping m) ''original'' [] = original m"
  "get (dict_of_mapping m) ''transformed'' [] = transformed m"
  by (simp_all add: get_def dict_of_mapping_def)

lemma mappings_ok_dicts:
  "mappings_ok (map dict_of_mapping ms) =
     (3 \<le> length ms \<and> length ms \<le> 5 \<and> (\<forall>m \<in> set ms. transformed m \<noteq> original m))"
  by (simp add: mappings_ok_def get_dict_of_mapping)

text \<open>
  C1, as the specification states it: every result of
  \<open>create_reconstructed_prompt_and_analysis\<close> has between 3 and 5 keyword mappings, none
  with \<open>transformed = original\<close>. The schema only describes the list (``3-5'' is part of
  the field's description text), so a parsed output with a single identity mapping is
  returned as it is.
\<close>

theorem reconstruction_contract_counterexample:
  "create_reconstructed_prompt_and_analysis ''d'' empty_report (Inr identity_output) =
     Inr (''a calm forest'', ''s'', [ [(''original'', ''wolf''), (''transformed'', ''wolf'')] ]) \<and>
   length [ [(''original'', ''wolf''), (''transformed'', ''wolf'')] ] = (1::nat) \<and>
   get [(''original'', ''wolf''), (''transformed'', ''wolf'')] ''transformed'' [] =
   get [(''original'', ''wolf''), (''transformed'', ''wolf'')] ''original'' []"
  by (simp add: create_reconstructed_prompt_and_analysis_def identity_output_def
      dict_of_mapping_def get_def)

text \<open>
  C1, amended: every result of \<open>create_reconstructed_prompt_and_analysis\<close> carries
  exactly the keyword mappings of the schema-parsed model output, as many and in the
  same order, each as a dict of its \<open>original\<close> and \<open>transformed\<close> strings; the result
  meets the 3 to 5 bound and \<open>transformed \<noteq> original\<close> exactly when the model output
  does.
\<close>

theorem reconstruction_passes_parsed_mappings:
  assumes "create_reconstructed_prompt_and_analysis t r chain = Inr (p, s, ms)"
  shows "\<exists>response. chain = Inr response \<and> p = out_reconstructed_prompt response \<and>
           s = out_transformation_summary response \<and>
           ms = map dict_of_mapping (out_keyword_mappings response) \<and>
           length ms = length (out_keyword_mappings response) \<and>
           (mappings_ok ms \<longleftrightarrow> output_ok response)"
proof (cases chain)
  case (Inl e)
  with assms show ?thesis by (simp add: create_reconstructed_prompt_and_analysis_def)
next
  case (Inr response)
  with assms have "ms = map dict_of_mapping (out_keyword_mappings response)"
    and "p = out_reconstructed_prompt response" and "s = out_transformation_summary response"
    by (simp_all add: create_reconstructed_prompt_and_analysis_def)
  with Inr show ?thesis by (simp add: mappings_ok_dicts output_ok_def)
qed

theorem reconstruction_passes_parsed_mappings_witness:
  "create_reconstructed_prompt_and_analysis ''d'' empty_report (Inr three_mappings) =
     Inr (''p'', ''s'', map dict_of_mapping (out_keyword_mappings three_mappings)) \<and>
   mappings_ok (map dict_of_mapping (out_keyword_mappings three_mappings)) \<and>
   output_ok three_mappings"
proof -
  have h: "create_reconstructed_prompt_and_analysis ''d'' empty_report (Inr three_mappings) =
     Inr (''p'', ''s'', map dict_of_mapping (out_keyword_mappings three_mappings))"
    by (simp add: create_reconstructed_prompt_and_analysis_def three_mappings_def)
  have ok: "output_ok three_mappings"
    by (simp add: output_ok_def three_mappings_def)
  from reconstruction_passes_parsed_mappings [OF h] ok
  have "mappings_ok (map dict_of_mapping (out_keyword_mappings three_mappings))" by simp
  with h ok show ?thesis by simp
qed

section \<open>The report generator\<close>

text \<open>
  C3, as the specification states it: every report returned by
  \<open>generate_report_with_rag\<close> has scores in \<open>[0, 1]\<close>, non-empty emotion labels, and
  keywords whenever it has emotions. The models \<open>Emotion\<close> and \<open>Report\<close> carry no
  validator, so a parsed report with score 1.5, an empty label and no keyword is returned.
\<close>

theorem report_schema_counterexample:
  "generate_report_with_rag True ''d'' (Inr out_of_range_report) = Inr out_of_range_report \<and>
   emotions out_of_range_report = [\<lparr>emotion = [], score = 3 / 2\<rparr>] \<and>
   \<not> score \<lparr>emotion = [], score = 3 / 2\<rparr> \<le> 1 \<and>
   emotion \<lparr>emotion = [], score = 3 / 2\<rparr> = [] \<and>
   report_keywords out_of_range_report = []"
  by (simp add: generate_report_with_rag_def out_of_range_report_def)

text \<open>
  C3, amended: a report returned by \<open>generate_report_with_rag\<close> is either the
  schema-parsed model output, unchanged and unchecked, or, when the chain raised an
  \<open>Exception\<close>, the fallback with no emotions, no keywords and the error text as
  summary. So the returned report has scores in \<open>[0, 1]\<close>, non-empty labels and keywords
  whenever it has emotions exactly when the parsed model output has.
\<close>

theorem report_is_parsed_output_or_fallback:
  assumes "generate_report_with_rag retriever t chain = Inr d"
  shows "retriever \<and>
         (case chain of
            Inr report_object \<Rightarrow> d = report_object
          | Inl e \<Rightarrow> is_Exception e \<and> emotions d = [] \<and> report_keywords d = [] \<and>
                     analysis_summary d = report_error_prefix @ msg e) \<and>
         (report_ok d \<longleftrightarrow>
            (case chain of Inr report_object \<Rightarrow> report_ok report_object | Inl e \<Rightarrow> True))"
  using assms
  by (auto simp: generate_report_with_rag_def report_ok_def split: if_splits sum.splits)

theorem report_is_parsed_output_or_fallback_witness:
  "generate_report_with_rag True ''d'' (Inr fear_report) = Inr fear_report \<and>
   report_ok fear_report"
proof -
  have h: "generate_report_with_rag True ''d'' (Inr fear_report) = Inr fear_report"
    by (simp add: generate_report_with_rag_def)
  have "report_ok fear_report \<longleftrightarrow> report_ok fear_report"
    using report_is_parsed_output_or_fallback [OF h] by simp
  moreover have "report_ok fear_report" by (simp add: report_ok_def fear_report_def)
  ultimately show ?thesis using h by simp
qed

section \<open>The orchestrator: the session invariant\<close>

lemma last_moderation_append:
  "last_moderation m (xs @ ys) = last_moderation (last_moderation m xs) ys"
  by (induction m xs rule: last_moderation.induct) simp_all

lemma gen_after_pass_append:
  "gen_after_pass m (xs @ ys) = (gen_after_pass m xs \<and> gen_after_pass (last_moderation m xs) ys)"
  by (induction m xs rule: gen_after_pass.induct) simp_all

lemma inv_initial: "session_inv (initial_world fs)"
  by (simp add: session_inv_def initial_world_def session_defaults_def)

lemma inv_audio_block: "session_inv w \<Longrightarrow> session_inv (snd (audio_block inp w))"
  unfolding session_inv_def audio_block_def audio_try_def audio_finally_def emit_def
    moderation_gate_def Let_def
  by (auto simp: session_defaults_def last_moderation_append gen_after_pass_append
      split: option.splits prod.splits sum.splits temp_outcome.splits if_splits)

lemma inv_analysis_block: "session_inv w \<Longrightarrow> session_inv (snd (analysis_block inp w))"
  unfolding session_inv_def analysis_block_def Let_def
  by (auto split: if_splits)

lemma inv_report_block: "session_inv w \<Longrightarrow> session_inv (snd (report_block inp w))"
  unfolding session_inv_def report_block_def emit_def Let_def
  by (auto simp: last_moderation_append gen_after_pass_append split: if_splits sum.splits)

lemma inv_image_block: "session_inv w \<Longrightarrow> session_inv (snd (image_block inp w))"
  unfolding session_inv_def image_block_def emit_def Let_def
  by (auto simp: last_moderation_append gen_after_pass_append
      split: if_splits sum.splits option.splits prod.splits)

lemma inv_script_run: "session_inv w \<Longrightarrow> session_inv (snd (script_run inp w))"
proof -
  assume i: "session_inv w"
  obtain e1 w1 where b1: "audio_block inp w = (e1, w1)" by (cases "audio_block inp w")
  obtain e2 w2 where b2: "analysis_block inp w1 = (e2, w2)" by (cases "analysis_block inp w1")
  obtain e3 w3 where b3: "report_block inp w2 = (e3, w3)" by (cases "report_block inp w2")
  obtain e4 w4 where b4: "image_block inp w3 = (e4, w4)" by (cases "image_block inp w3")
  have i1: "session_inv w1" using inv_audio_block [OF i, of inp] b1 by simp
  have i2: "session_inv w2" using inv_analysis_block [OF i1, of inp] b2 by simp
  have i3: "session_inv w3" using inv_report_block [OF i2, of inp] b3 by simp
  have i4: "session_inv w4" using inv_image_block [OF i3, of inp] b4 by simp
  show ?thesis
    using b1 b2 b3 b4 i1 i2 i3 i4
    by (simp add: script_run_def split: option.splits)
qed

lemma reachable_inv: "reachable w \<Longrightarrow> session_inv w"
  by (induction rule: reachable.induct) (simp_all add: inv_initial inv_script_run)

section \<open>Runs on concrete inputs\<close>

lemma reachable_run_all: "reachable w \<Longrightarrow> reachable (run_all inps w)"
  by (induction inps arbitrary: w) (simp_all add: reachable.step)

lemmas concrete_inputs =
  quiet_inputs_def audio_inputs_def flagged_inputs_def analyze_inputs_def nightmare_inputs_def
  new_audio_inputs_def stt_failure_inputs_def report_failure_inputs_def interrupted_inputs_def
  moderation_down_inputs_def

lemmas run_defs =
  script_run_def audio_block_def audio_try_def audio_finally_def analysis_block_def
  report_block_def image_block_def emit_def moderation_gate_def audio_input_def
  initial_world_def session_defaults_def Let_def

lemma flagged_run:
  "run_all [flagged_inputs, analyze_inputs] (initial_world {}) =
   \<lparr>sess = session_defaults\<lparr>original_dream_text := ''a wolf chased me'', audio_processed := True\<rparr>,
    files = {},
    trace = [TempFileWritten ''/tmp/tmpa1.wav'', Transcribe ''/tmp/tmpa1.wav'',
             Moderate ''a wolf chased me'' (Some True), RemoveFile ''/tmp/tmpa1.wav'']\<rparr>"
  by (simp add: run_defs concrete_inputs transcribe_audio_def check_text_safety_def)

section \<open>The orchestrator: moderation before report generation\<close>

text \<open>
  C2: in every trace of a session, the report generator is called on a text only when
  the most recent moderation was of that text and passed; and whenever the most recent
  moderation flagged its text, the working \<open>dream_text\<close> is empty and the analysis is
  not started, so the report generator is not called for that text.
\<close>

theorem flagged_text_never_reaches_report_generator:
  assumes "reachable w"
  shows "gen_after_pass None (trace w) \<and>
         (\<forall>t. last_moderation None (trace w) = Some (t, Some True) \<longrightarrow>
               dream_text (sess w) = [] \<and> \<not> analysis_started (sess w))"
  using reachable_inv [OF assms] by (auto simp: session_inv_def)

theorem flagged_text_never_reaches_report_generator_witness:
  "reachable (run_all [flagged_inputs, analyze_inputs] (initial_world {})) \<and>
   last_moderation None (trace (run_all [flagged_inputs, analyze_inputs] (initial_world {}))) =
     Some (''a wolf chased me'', Some True) \<and>
   gen_after_pass None (trace (run_all [flagged_inputs, analyze_inputs] (initial_world {}))) \<and>
   dream_text (sess (run_all [flagged_inputs, analyze_inputs] (initial_world {}))) = [] \<and>
   \<not> analysis_started (sess (run_all [flagged_inputs, analyze_inputs] (initial_world {})))"
proof -
  have r: "reachable (run_all [flagged_inputs, analyze_inputs] (initial_world {}))"
    by (rule reachable_run_all) (rule reachable.init)
  have m: "last_moderation None (trace (run_all [flagged_inputs, analyze_inputs] (initial_world {}))) =
     Some (''a wolf chased me'', Some True)"
    unfolding flagged_run by simp
  from flagged_text_never_reaches_report_generator [OF r] m r show ?thesis by blast
qed

lemma passed_run:
  "run_all [audio_inputs] (initial_world {}) =
   \<lparr>sess = session_defaults\<lparr>dream_text := ''a wolf chased me'',
       original_dream_text := ''a wolf chased me'', audio_processed := True\<rparr>,
    files = {},
    trace = [TempFileWritten ''/tmp/tmpa1.wav'', Transcribe ''/tmp/tmpa1.wav'',
             Moderate ''a wolf chased me'' (Some False), RemoveFile ''/tmp/tmpa1.wav'']\<rparr>"
  by (simp add: run_defs concrete_inputs transcribe_audio_def check_text_safety_def)

section \<open>The orchestrator: the working text and the transcript\<close>

text \<open>
  C10: in every reachable session state the working \<open>dream_text\<close> is empty or equal to
  \<open>original_dream_text\<close>.
\<close>

theorem dream_text_empty_or_transcript:
  assumes "reachable w"
  shows "dream_text (sess w) = [] \<or> dream_text (sess w) = original_dream_text (sess w)"
  using reachable_inv [OF assms] by (auto simp: session_inv_def)

theorem dream_text_empty_or_transcript_witness:
  "reachable (run_all [audio_inputs] (initial_world {})) \<and>
   dream_text (sess (run_all [audio_inputs] (initial_world {}))) = ''a wolf chased me'' \<and>
   dream_text (sess (run_all [audio_inputs] (initial_world {}))) =
     original_dream_text (sess (run_all [audio_inputs] (initial_world {})))"
proof -
  have r: "reachable (run_all [audio_inputs] (initial_world {}))"
    by (rule reachable_run_all) (rule reachable.init)
  have d: "dream_text (sess (run_all [audio_inputs] (initial_world {}))) = ''a wolf chased me''"
    unfolding passed_run by simp
  from dream_text_empty_or_transcript [OF r] d r show ?thesis by auto
qed

section \<open>The orchestrator: one report per populated session\<close>

lemma audio_block_continues: "audio_block inp w = (None, w1) \<Longrightarrow> w1 = w"
  unfolding audio_block_def Let_def
  by (auto split: option.splits prod.splits if_splits)

lemma analysis_block_continues: "analysis_block inp w = (None, w1) \<Longrightarrow> w1 = w"
  unfolding analysis_block_def Let_def
  by (auto split: if_splits)

lemma audio_block_trace:
  "\<exists>evs. trace (snd (audio_block inp w)) = trace w @ evs \<and> filter is_GenerateReport evs = []"
  unfolding audio_block_def audio_try_def audio_finally_def emit_def Let_def
  by (auto split: option.splits prod.splits sum.splits temp_outcome.splits if_splits)

lemma analysis_block_trace: "trace (snd (analysis_block inp w)) = trace w"
  unfolding analysis_block_def Let_def by simp

lemma image_block_trace:
  "\<exists>evs. trace (snd (image_block inp w)) = trace w @ evs \<and> filter is_GenerateReport evs = []"
  unfolding image_block_def emit_def Let_def
  by (auto split: option.splits prod.splits sum.splits if_splits)

lemma report_block_trace:
  "\<exists>evs. trace (snd (report_block inp w)) = trace w @ evs \<and>
     length (filter is_GenerateReport evs) \<le> 1 \<and>
     (dream_report (sess w) \<noteq> None \<longrightarrow> evs = []) \<and>
     (filter is_GenerateReport evs \<noteq> [] \<longrightarrow> fst (report_block inp w) \<noteq> None) \<and>
     (filter is_GenerateReport evs \<noteq> [] \<and> fst (report_block inp w) = Some Rerun \<longrightarrow>
        dream_report (sess (snd (report_block inp w))) \<noteq> None)"
  unfolding report_block_def emit_def Let_def
  by (auto split: sum.splits if_splits)

lemma report_block_continues_sess:
  "report_block inp w = (None, w1) \<Longrightarrow> dream_report (sess w1) = dream_report (sess w) \<and> trace w1 = trace w"
  unfolding report_block_def emit_def Let_def
  by (auto split: sum.splits if_splits)

lemma script_run_events:
  "\<exists>evs. trace (snd (script_run inp w)) = trace w @ evs \<and>
     length (filter is_GenerateReport evs) \<le> 1 \<and>
     (dream_report (sess w) \<noteq> None \<longrightarrow> filter is_GenerateReport evs = []) \<and>
     (filter is_GenerateReport evs \<noteq> [] \<and> fst (script_run inp w) = Rerun \<longrightarrow>
        dream_report (sess (snd (script_run inp w))) \<noteq> None)"
proof (cases "audio_block inp w")
  case (Pair e1 w1)
  show ?thesis
  proof (cases e1)
    case (Some en)
    with Pair have "script_run inp w = (en, w1)" by (simp add: script_run_def)
    with audio_block_trace [of inp w] Pair show ?thesis by auto
  next
    case None
    with Pair have w1: "w1 = w" by (simp add: audio_block_continues)
    obtain e2 w2 where b2: "analysis_block inp w = (e2, w2)" by (cases "analysis_block inp w")
    show ?thesis
    proof (cases e2)
      case (Some en)
      with Pair None w1 b2 have "script_run inp w = (en, w2)" by (simp add: script_run_def)
      with analysis_block_trace [of inp w] b2 show ?thesis by auto
    next
      case n2: None
      with b2 have w2: "w2 = w" by (simp add: analysis_block_continues)
      obtain e3 w3 where b3: "report_block inp w = (e3, w3)" by (cases "report_block inp w")
      show ?thesis
      proof (cases e3)
        case (Some en)
        with Pair None w1 b2 n2 w2 b3 have "script_run inp w = (en, w3)"
          by (simp add: script_run_def)
        with report_block_trace [of inp w] b3 Some show ?thesis by auto
      next
        case n3: None
        with b3 have k: "dream_report (sess w3) = dream_report (sess w)" "trace w3 = trace w"
          by (simp_all add: report_block_continues_sess)
        obtain e4 w4 where b4: "image_block inp w3 = (e4, w4)" by (cases "image_block inp w3")
        have "snd (script_run inp w) = w4"
          using Pair None w1 b2 n2 w2 b3 n3 b4 by (simp add: script_run_def split: option.splits)
        with image_block_trace [of inp w3] b4 k show ?thesis by auto
      qed
    qed
  qed
qed

lemma new_events_append: "trace (snd (script_run inp w)) = trace w @ evs \<Longrightarrow> new_events inp w = evs"
  by (simp add: new_events_def)

text \<open>
  C8: a run that starts with \<open>dream_report\<close> populated does not call the report
  generator; no run calls it more than once; and a run that called it and ended with
  \<open>st.rerun()\<close> leaves \<open>dream_report\<close> populated.
\<close>

theorem report_generated_at_most_once:
  "(dream_report (sess w) \<noteq> None \<longrightarrow> filter is_GenerateReport (new_events inp w) = []) \<and>
   length (filter is_GenerateReport (new_events inp w)) \<le> 1 \<and>
   (filter is_GenerateReport (new_events inp w) \<noteq> [] \<and> fst (script_run inp w) = Rerun \<longrightarrow>
      dream_report (sess (snd (script_run inp w))) \<noteq> None)"
proof -
  obtain evs where e: "trace (snd (script_run inp w)) = trace w @ evs"
    and p: "length (filter is_GenerateReport evs) \<le> 1"
      "dream_report (sess w) \<noteq> None \<longrightarrow> filter is_GenerateReport evs = []"
      "filter is_GenerateReport evs \<noteq> [] \<and> fst (script_run inp w) = Rerun \<longrightarrow>
        dream_report (sess (snd (script_run inp w))) \<noteq> None"
    using script_run_events [of inp w] by blast
  from e have "new_events inp w = evs" by (rule new_events_append)
  with p show ?thesis by simp
qed


lemma report_ready_run:
  "run_all [audio_inputs, analyze_inputs, audio_inputs] (initial_world {}) =
   \<lparr>sess = session_defaults\<lparr>dream_text := ''a wolf chased me'',
       original_dream_text := ''a wolf chased me'', analysis_started := True,
       audio_processed := True, dream_report := Some fear_report,
       nightmare_keywords := [''forest'', ''shadow'']\<rparr>,
    files = {},
    trace = [TempFileWritten ''/tmp/tmpa1.wav'', Transcribe ''/tmp/tmpa1.wav'',
             Moderate ''a wolf chased me'' (Some False), RemoveFile ''/tmp/tmpa1.wav'',
             GenerateReport ''a wolf chased me'']\<rparr>"
  by (simp add: run_defs concrete_inputs transcribe_audio_def check_text_safety_def
      generate_report_with_rag_def fear_report_def)

theorem report_generated_at_most_once_witness:
  "dream_report (sess (run_all [audio_inputs, analyze_inputs, audio_inputs] (initial_world {}))) =
     Some fear_report \<and>
   filter is_GenerateReport
     (new_events audio_inputs
        (run_all [audio_inputs, analyze_inputs, audio_inputs] (initial_world {}))) = []"
proof -
  have d: "dream_report (sess (run_all [audio_inputs, analyze_inputs, audio_inputs]
             (initial_world {}))) = Some fear_report"
    unfolding report_ready_run by simp
  with report_generated_at_most_once
    [of "run_all [audio_inputs, analyze_inputs, audio_inputs] (initial_world {})" audio_inputs]
  show ?thesis by simp
qed

section \<open>The orchestrator: the temporary audio file\<close>

text \<open>
  C7: whenever audio processing has written the temporary file and so calls the
  transcription, the file is removed afterwards, whatever transcription and moderation
  return or raise: the run's events are the write, the transcription, what follows,
  and last the removal, and the path is not among the files left.
\<close>

theorem temp_file_removed_after_transcription:
  assumes "audio_input inp = Some (a, n)" and "a \<noteq> []" and "\<not> audio_processed (sess w)"
    and "temp_file inp = TempOk p" and "p \<noteq> []"
  shows "p \<notin> files (snd (audio_block inp w)) \<and>
         files (snd (audio_block inp w)) = files w - {p} \<and>
         (\<exists>evs. trace (snd (audio_block inp w)) =
                  trace w @ TempFileWritten p # Transcribe p # evs @ [RemoveFile p])"
  using assms
  unfolding audio_block_def audio_try_def audio_finally_def emit_def Let_def
  by (auto split: sum.splits)

theorem temp_file_removed_after_transcription_witness:
  "audio_input interrupted_inputs = Some ([82, 73, 70, 70], ''recorded_dream.wav'') \<and>
   \<not> audio_processed (sess (initial_world {})) \<and>
   temp_file interrupted_inputs = TempOk ''/tmp/tmpa1.wav'' \<and>
   check_text_safety ''a wolf chased me'' (moderation_api interrupted_inputs) =
     Inl (Exn KeyboardInterrupt []) \<and>
   fst (audio_block interrupted_inputs (initial_world {})) = Some (Crashed (Exn KeyboardInterrupt [])) \<and>
   ''/tmp/tmpa1.wav'' \<notin> files (snd (audio_block interrupted_inputs (initial_world {})))"
proof -
  have a: "audio_input interrupted_inputs = Some ([82, 73, 70, 70], ''recorded_dream.wav'')"
    by (simp add: audio_input_def concrete_inputs)
  have b: "[82, 73, 70, 70] \<noteq> ([]::nat list)" by simp
  have c: "\<not> audio_processed (sess (initial_world {}))"
    by (simp add: initial_world_def session_defaults_def)
  have d: "temp_file interrupted_inputs = TempOk ''/tmp/tmpa1.wav''"
    by (simp add: concrete_inputs)
  have e: "''/tmp/tmpa1.wav'' \<noteq> []" by simp
  have f: "check_text_safety ''a wolf chased me'' (moderation_api interrupted_inputs) =
     Inl (Exn KeyboardInterrupt [])"
    by (simp add: check_text_safety_def concrete_inputs is_Exception_def)
  have g: "fst (audio_block interrupted_inputs (initial_world {})) =
     Some (Crashed (Exn KeyboardInterrupt []))"
    by (simp add: run_defs concrete_inputs transcribe_audio_def check_text_safety_def
        is_Exception_def)
  from temp_file_removed_after_transcription [OF a b c d e] a c d f g show ?thesis by blast
qed

section \<open>The moderation service fails closed\<close>

lemma halted_run:
  assumes "dream_text (sess w) = []" and "audio_processed (sess w)"
    and "\<not> analysis_started (sess w)" and "dream_report (sess w) = None"
  shows "script_run inp w = (Completed, w)"
  using assms
  unfolding script_run_def audio_block_def analysis_block_def report_block_def image_block_def
    Let_def
  by (auto split: option.splits prod.splits)

lemma check_text_safety_raises:
  "is_Exception e \<Longrightarrow> check_text_safety t (Inl e) = Inr (moderation_error e)"
  by (simp add: check_text_safety_def)

lemma check_text_safety_violation:
  "mr_flagged r \<Longrightarrow> \<exists>sr. check_text_safety t (Inr (r # rs)) = Inr sr \<and> flagged sr"
  by (simp add: check_text_safety_def Let_def)

lemma moderation_gate_flagged:
  "flagged sr \<Longrightarrow> moderation_gate t sr s = s\<lparr>dream_text := [], audio_processed := True\<rparr>"
  by (simp add: moderation_gate_def)

text \<open>
  C9: when the moderation API call raises an \<open>Exception\<close>, \<open>check_text_safety\<close> returns a
  result with \<open>flagged = True\<close>, and the moderation gate treats it as it treats the
  result of a policy violation: \<open>dream_text\<close> is cleared. In the audio processing of a run this leaves
  the default session with only the transcript and \<open>audio_processed\<close> set, and no later
  run changes anything.
\<close>

theorem moderation_exception_fails_closed:
  assumes "is_Exception e"
  shows "(\<exists>sr. check_text_safety t (Inl e) = Inr sr \<and> flagged sr \<and>
               dream_text (moderation_gate t sr s) = [] \<and>
               (\<forall>r rs. mr_flagged r \<longrightarrow>
                  (\<exists>sr'. check_text_safety t (Inr (r # rs)) = Inr sr' \<and> flagged sr' \<and>
                         moderation_gate t sr s = moderation_gate t sr' s))) \<and>
         (audio_input inp = Some (a, n) \<and> a \<noteq> [] \<and> \<not> audio_processed (sess w) \<and>
          temp_file inp = TempOk p \<and>
          transcribe_audio (insert p (files w)) p (stt_api inp) = Inr t \<and>
          moderation_api inp = Inl e \<longrightarrow>
            fst (audio_block inp w) = Some Rerun \<and>
            sess (snd (audio_block inp w)) =
              session_defaults\<lparr>original_dream_text := t, audio_processed := True\<rparr> \<and>
            (\<forall>inp'. script_run inp' (snd (audio_block inp w)) =
                      (Completed, snd (audio_block inp w))))"
proof -
  have c: "check_text_safety t (Inl e) = Inr (moderation_error e)"
    using assms by (rule check_text_safety_raises)
  have f: "flagged (moderation_error e)" by (simp add: moderation_error_def)
  have one: "\<exists>sr. check_text_safety t (Inl e) = Inr sr \<and> flagged sr \<and>
               dream_text (moderation_gate t sr s) = [] \<and>
               (\<forall>r rs. mr_flagged r \<longrightarrow>
                  (\<exists>sr'. check_text_safety t (Inr (r # rs)) = Inr sr' \<and> flagged sr' \<and>
                         moderation_gate t sr s = moderation_gate t sr' s))"
  proof -
    have "\<exists>sr'. check_text_safety t (Inr (r # rs)) = Inr sr' \<and> flagged sr' \<and>
            moderation_gate t (moderation_error e) s = moderation_gate t sr' s"
      if "mr_flagged r" for r rs
      using check_text_safety_violation [OF that, of t rs] f
      by (auto simp: moderation_gate_flagged)
    with c f show ?thesis by (auto simp: moderation_gate_flagged)
  qed
  have two: "fst (audio_block inp w) = Some Rerun \<and>
            sess (snd (audio_block inp w)) =
              session_defaults\<lparr>original_dream_text := t, audio_processed := True\<rparr> \<and>
            (\<forall>inp'. script_run inp' (snd (audio_block inp w)) =
                      (Completed, snd (audio_block inp w)))"
    if h: "audio_input inp = Some (a, n)" "a \<noteq> []" "\<not> audio_processed (sess w)"
      "temp_file inp = TempOk p"
      "transcribe_audio (insert p (files w)) p (stt_api inp) = Inr t"
      "moderation_api inp = Inl e"
  proof -
    have s: "fst (audio_block inp w) = Some Rerun \<and>
            sess (snd (audio_block inp w)) =
              session_defaults\<lparr>original_dream_text := t, audio_processed := True\<rparr>"
      using h c f
      unfolding audio_block_def audio_try_def audio_finally_def emit_def Let_def
      by (simp add: moderation_gate_flagged session_defaults_def)
    then have "script_run inp' (snd (audio_block inp w)) = (Completed, snd (audio_block inp w))"
      for inp'
      by (intro halted_run) (simp_all add: session_defaults_def)
    with s show ?thesis by blast
  qed
  from one two show ?thesis by blast
qed

theorem moderation_exception_fails_closed_witness:
  "is_Exception (Exn APIConnectionError ''Connection error.'') \<and>
   moderation_api moderation_down_inputs = Inl (Exn APIConnectionError ''Connection error.'') \<and>
   check_text_safety ''a wolf chased me'' (Inl (Exn APIConnectionError ''Connection error.'')) =
     Inr (moderation_error (Exn APIConnectionError ''Connection error.'')) \<and>
   flagged (moderation_error (Exn APIConnectionError ''Connection error.'')) \<and>
   fst (audio_block moderation_down_inputs (initial_world {})) = Some Rerun \<and>
   dream_text (sess (snd (audio_block moderation_down_inputs (initial_world {})))) = [] \<and>
   script_run analyze_inputs (snd (audio_block moderation_down_inputs (initial_world {}))) =
     (Completed, snd (audio_block moderation_down_inputs (initial_world {})))"
proof -
  have e: "is_Exception (Exn APIConnectionError ''Connection error.'')"
    by (simp add: is_Exception_def)
  have a: "audio_input moderation_down_inputs = Some ([82, 73, 70, 70], ''recorded_dream.wav'')"
    by (simp add: audio_input_def concrete_inputs)
  have b: "[82, 73, 70, 70] \<noteq> ([]::nat list)" by simp
  have c: "\<not> audio_processed (sess (initial_world {}))"
    by (simp add: initial_world_def session_defaults_def)
  have d: "temp_file moderation_down_inputs = TempOk ''/tmp/tmpa1.wav''"
    by (simp add: concrete_inputs)
  have t: "transcribe_audio (insert ''/tmp/tmpa1.wav'' (files (initial_world {}))) ''/tmp/tmpa1.wav''
             (stt_api moderation_down_inputs) = Inr ''a wolf chased me''"
    by (simp add: transcribe_audio_def concrete_inputs)
  have m: "moderation_api moderation_down_inputs = Inl (Exn APIConnectionError ''Connection error.'')"
    by (simp add: concrete_inputs)
  have k: "check_text_safety ''a wolf chased me'' (Inl (Exn APIConnectionError ''Connection error.'')) =
     Inr (moderation_error (Exn APIConnectionError ''Connection error.''))"
    by (simp add: check_text_safety_def is_Exception_def)
  have f: "flagged (moderation_error (Exn APIConnectionError ''Connection error.''))"
    by (simp add: moderation_error_def)
  from moderation_exception_fails_closed [OF e, of "''a wolf chased me''" session_defaults
      moderation_down_inputs "[82, 73, 70, 70]" "''recorded_dream.wav''" "initial_world {}"
      "''/tmp/tmpa1.wav''"] a b c d t m
  have "fst (audio_block moderation_down_inputs (initial_world {})) = Some Rerun \<and>
        sess (snd (audio_block moderation_down_inputs (initial_world {}))) =
          session_defaults\<lparr>original_dream_text := ''a wolf chased me'', audio_processed := True\<rparr> \<and>
        (\<forall>inp'. script_run inp' (snd (audio_block moderation_down_inputs (initial_world {}))) =
                  (Completed, snd (audio_block moderation_down_inputs (initial_world {}))))"
    by blast
  then show ?thesis using e m k f by (simp add: session_defaults_def)
qed

section \<open>The orchestrator: reset on audio input\<close>







section \<open>The orchestrator: a failing report generation\<close>







section \<open>The orchestrator: a failing transcription\<close>

lemma stt_messages_nonempty:
  "stt_file_not_found \<noteq> []" "stt_auth_error \<noteq> []" "stt_rate_limit \<noteq> []"
  "stt_connection_error \<noteq> []" "stt_unknown_prefix \<noteq> []"
  by (simp_all add: stt_file_not_found_def stt_auth_error_def stt_rate_limit_def
      stt_connection_error_def stt_unknown_prefix_def)

lemma transcribe_failure_text:
  assumes "is_Exception e"
  shows "\<exists>t. transcribe_audio fs p (Inl e) = Inr t \<and> t \<noteq> []"
  using assms
  by (cases e; cases "cls e")
     (auto simp: transcribe_audio_def is_Exception_def stt_messages_nonempty)

lemma stt_failure_text:
  "''/tmp/tmpa1.wav'' \<in> fs \<Longrightarrow>
   transcribe_audio fs ''/tmp/tmpa1.wav'' (Inl (Exn APIConnectionError ''Connection error.'')) =
     Inr stt_connection_error"
  by (simp add: transcribe_audio_def)

lemma failed_transcript_world_eq:
  "failed_transcript_world =
   \<lparr>sess = session_defaults\<lparr>dream_text := stt_connection_error,
       original_dream_text := stt_connection_error, analysis_started := True,
       audio_processed := True, dream_report := Some fear_report,
       nightmare_keywords := [''forest'', ''shadow'']\<rparr>,
    files = {},
    trace = [TempFileWritten ''/tmp/tmpa1.wav'', Transcribe ''/tmp/tmpa1.wav'',
             Moderate stt_connection_error (Some False), RemoveFile ''/tmp/tmpa1.wav'',
             GenerateReport stt_connection_error]\<rparr>"
  unfolding failed_transcript_world_def
  by (simp add: run_defs concrete_inputs stt_failure_text stt_messages_nonempty
      check_text_safety_def generate_report_with_rag_def fear_report_def)

text \<open>
  C6, as the specification states it: after a failed transcription the pipeline does
  not advance, and no moderation pass of the failure text leads to report generation.
  With the transcription API unreachable, moderation passes the failure text, the user
  confirms, and the report generator is called on the failure text.
\<close>

theorem transcription_failure_counterexample:
  "stt_api stt_failure_inputs = Inl (Exn APIConnectionError ''Connection error.'') \<and>
   transcribe_audio {''/tmp/tmpa1.wav''} ''/tmp/tmpa1.wav''
     (Inl (Exn APIConnectionError ''Connection error.'')) = Inr stt_connection_error \<and>
   failed_transcript_world =
     run_all [stt_failure_inputs, analyze_inputs, audio_inputs] (initial_world {}) \<and>
   trace failed_transcript_world =
     [TempFileWritten ''/tmp/tmpa1.wav'', Transcribe ''/tmp/tmpa1.wav'',
      Moderate stt_connection_error (Some False), RemoveFile ''/tmp/tmpa1.wav'',
      GenerateReport stt_connection_error] \<and>
   dream_text (sess failed_transcript_world) = stt_connection_error \<and>
   dream_report (sess failed_transcript_world) = Some fear_report"
proof -
  have a: "stt_api stt_failure_inputs = Inl (Exn APIConnectionError ''Connection error.'')"
    by (simp add: concrete_inputs)
  have t: "trace failed_transcript_world =
     [TempFileWritten ''/tmp/tmpa1.wav'', Transcribe ''/tmp/tmpa1.wav'',
      Moderate stt_connection_error (Some False), RemoveFile ''/tmp/tmpa1.wav'',
      GenerateReport stt_connection_error]"
    unfolding failed_transcript_world_eq by simp
  have d: "dream_text (sess failed_transcript_world) = stt_connection_error"
    unfolding failed_transcript_world_eq by simp
  have r: "dream_report (sess failed_transcript_world) = Some fear_report"
    unfolding failed_transcript_world_eq by simp
  have f: "transcribe_audio {''/tmp/tmpa1.wav''} ''/tmp/tmpa1.wav''
     (Inl (Exn APIConnectionError ''Connection error.'')) = Inr stt_connection_error"
    by (simp add: stt_failure_text)
  show ?thesis
    by (simp only: a f t d r failed_transcript_world_def [symmetric] simp_thms)
qed

lemma unconfirmed_run_idle:
  assumes "audio_processed (sess w)" and "\<not> analysis_started (sess w)"
    and "dream_report (sess w) = None" and "\<not> click_analyze inp"
  shows "script_run inp w = (Completed, w)"
  using assms
  unfolding script_run_def audio_block_def analysis_block_def report_block_def image_block_def
    Let_def
  by (auto split: option.splits prod.splits)

lemma confirm_sets_started:
  assumes "audio_processed (sess w)" and "dream_text (sess w) \<noteq> []"
    and "original_dream_text (sess w) \<noteq> []" and "\<not> analysis_started (sess w)"
    and "click_analyze inp"
  shows "script_run inp w = (Rerun, w\<lparr>sess := (sess w)\<lparr>analysis_started := True\<rparr>\<rparr>)"
  using assms
  unfolding script_run_def audio_block_def analysis_block_def Let_def
  by (auto split: option.splits prod.splits)

lemma started_generates:
  assumes "audio_processed (sess w)" and "analysis_started (sess w)"
    and "dream_report (sess w) = None" and "original_dream_text (sess w) \<noteq> []"
  shows "script_run inp w =
     (case generate_report_with_rag (retriever_present inp) (original_dream_text (sess w))
             (report_chain inp) of
        Inl e \<Rightarrow> (Crashed e, emit (GenerateReport (original_dream_text (sess w))) w)
      | Inr report \<Rightarrow>
          (Rerun,
           (emit (GenerateReport (original_dream_text (sess w))) w)
             \<lparr>sess := (sess w)\<lparr>dream_report := Some report,
                                 nightmare_keywords := report_keywords report\<rparr>\<rparr>))"
  using assms
  unfolding script_run_def audio_block_def analysis_block_def report_block_def Let_def
  by (auto split: option.splits prod.splits sum.splits)

lemma started_generates_events:
  assumes "audio_processed (sess w)" and "analysis_started (sess w)"
    and "dream_report (sess w) = None" and "original_dream_text (sess w) \<noteq> []"
  shows "new_events inp w = [GenerateReport (original_dream_text (sess w))]"
  unfolding new_events_def started_generates [OF assms]
  by (simp add: emit_def split: sum.splits)

lemma started_generates_report:
  assumes "audio_processed (sess w)" and "analysis_started (sess w)"
    and "dream_report (sess w) = None" and "original_dream_text (sess w) \<noteq> []"
    and "generate_report_with_rag (retriever_present inp) (original_dream_text (sess w))
           (report_chain inp) = Inr report"
  shows "fst (script_run inp w) = Rerun \<and> dream_report (sess (snd (script_run inp w))) = Some report"
  unfolding started_generates [OF assms(1-4)] using assms(5) by (simp add: emit_def)

lemma failed_transcription_session:
  assumes "transcribe_audio (insert p (files w)) p (stt_api inp) = Inr t"
    and "audio_input inp = Some (a, n)"
    and "a \<noteq> []" and "\<not> audio_processed (sess w)" and "temp_file inp = TempOk p"
    and "check_text_safety t (moderation_api inp) = Inr safety_result"
  shows "audio_block inp w =
     (Some Rerun,
      audio_finally (Some p)
        ((emit (Moderate t (Some (flagged safety_result)))
           (emit (Transcribe p) (emit (TempFileWritten p)
              (w\<lparr>sess := session_defaults, files := insert p (files w)\<rparr>))))
         \<lparr>sess := session_defaults\<lparr>original_dream_text := t,
              dream_text := (if flagged safety_result then [] else t),
              audio_processed := True\<rparr>\<rparr>))"
  using assms
  unfolding audio_block_def audio_try_def emit_def moderation_gate_def Let_def
  by (simp add: session_defaults_def)


lemma sess_audio_finally: "sess (audio_finally ap w) = sess w"
  by (simp add: audio_finally_def emit_def split: option.splits)

lemma moderated_session:
  assumes "transcribe_audio (insert p (files w)) p (stt_api inp) = Inr t"
    and "audio_input inp = Some (a, n)"
    and "a \<noteq> []" and "\<not> audio_processed (sess w)" and "temp_file inp = TempOk p"
    and "check_text_safety t (moderation_api inp) = Inr safety_result"
  shows "fst (audio_block inp w) = Some Rerun \<and>
         sess (snd (audio_block inp w)) =
           session_defaults\<lparr>original_dream_text := t,
              dream_text := (if flagged safety_result then [] else t),
              audio_processed := True\<rparr>"
  unfolding failed_transcription_session [OF assms]
  by (simp add: sess_audio_finally)

lemma unmoderated_session:
  assumes "transcribe_audio (insert p (files w)) p (stt_api inp) = Inr t"
    and "audio_input inp = Some (a, n)"
    and "a \<noteq> []" and "\<not> audio_processed (sess w)" and "temp_file inp = TempOk p"
    and "check_text_safety t (moderation_api inp) = Inl e'"
  shows "sess (snd (audio_block inp w)) = session_defaults\<lparr>original_dream_text := t\<rparr>"
  using assms
  unfolding audio_block_def audio_try_def emit_def Let_def
  by (simp add: sess_audio_finally)

text \<open>
  C6, amended: when transcription fails with an \<open>Exception\<close>, \<open>transcribe_audio\<close> returns
  a non-empty failure text, which the run records as \<open>original_dream_text\<close> and then
  moderates like any transcript. If moderation flags it, \<open>dream_text\<close> is cleared and
  the pipeline halts: every later run leaves the world as it is. If moderation passes
  it, \<open>dream_text\<close> is the failure text: a run without the confirmation changes
  nothing, a run with the confirmation starts the analysis, and the run after that
  calls the report generator on the failure text, exactly once, and stores the report
  it returns.
\<close>

theorem transcription_failure_text_is_moderated:
  assumes "is_Exception e" and "stt_api inp = Inl e" and "audio_input inp = Some (a, n)"
    and "a \<noteq> []" and "\<not> audio_processed (sess w)" and "temp_file inp = TempOk p"
  shows "\<exists>t. transcribe_audio (insert p (files w)) p (Inl e) = Inr t \<and> t \<noteq> [] \<and>
           original_dream_text (sess (snd (audio_block inp w))) = t \<and>
           (case check_text_safety t (moderation_api inp) of
              Inr safety_result \<Rightarrow>
                dream_text (sess (snd (audio_block inp w))) =
                  (if flagged safety_result then [] else t) \<and>
                audio_processed (sess (snd (audio_block inp w))) \<and>
                fst (audio_block inp w) = Some Rerun \<and>
                (if flagged safety_result then
                   (\<forall>inp'. script_run inp' (snd (audio_block inp w)) =
                             (Completed, snd (audio_block inp w)))
                 else
                   (\<forall>inp1.
                      (\<not> click_analyze inp1 \<longrightarrow>
                         script_run inp1 (snd (audio_block inp w)) =
                           (Completed, snd (audio_block inp w))) \<and>
                      (click_analyze inp1 \<longrightarrow>
                         fst (script_run inp1 (snd (audio_block inp w))) = Rerun \<and>
                         analysis_started (sess (snd (script_run inp1 (snd (audio_block inp w))))) \<and>
                         (\<forall>inp2.
                            new_events inp2 (snd (script_run inp1 (snd (audio_block inp w)))) =
                              [GenerateReport t] \<and>
                            (\<forall>report.
                               generate_report_with_rag (retriever_present inp2) t
                                 (report_chain inp2) = Inr report \<longrightarrow>
                               fst (script_run inp2 (snd (script_run inp1 (snd (audio_block inp w)))))
                                 = Rerun \<and>
                               dream_report (sess (snd (script_run inp2
                                 (snd (script_run inp1 (snd (audio_block inp w))))))) =
                                 Some report)))))
            | Inl e' \<Rightarrow>
                dream_text (sess (snd (audio_block inp w))) = [] \<and>
                \<not> audio_processed (sess (snd (audio_block inp w))))"
proof -
  let ?W = "snd (audio_block inp w)"
  obtain t where t: "transcribe_audio (insert p (files w)) p (Inl e) = Inr t" "t \<noteq> []"
    using transcribe_failure_text [OF assms(1)] by blast
  have tr: "transcribe_audio (insert p (files w)) p (stt_api inp) = Inr t"
    using t(1) assms(2) by simp
  show ?thesis
  proof (cases "check_text_safety t (moderation_api inp)")
    case (Inl e')
    from unmoderated_session [OF tr assms(3-6) Inl]
    have "sess ?W = session_defaults\<lparr>original_dream_text := t\<rparr>" .
    then have "original_dream_text (sess ?W) = t \<and> dream_text (sess ?W) = [] \<and>
               \<not> audio_processed (sess ?W)"
      by (simp add: session_defaults_def)
    with t Inl show ?thesis by auto
  next
    case (Inr safety_result)
    from moderated_session [OF tr assms(3-6) Inr]
    have f: "fst (audio_block inp w) = Some Rerun"
      and s: "sess ?W = session_defaults\<lparr>original_dream_text := t,
              dream_text := (if flagged safety_result then [] else t),
              audio_processed := True\<rparr>"
      by simp_all
    have basic: "original_dream_text (sess ?W) = t"
      "dream_text (sess ?W) = (if flagged safety_result then [] else t)"
      "audio_processed (sess ?W)" "\<not> analysis_started (sess ?W)"
      "dream_report (sess ?W) = None"
      unfolding s by (simp_all add: session_defaults_def)
    show ?thesis
    proof (cases "flagged safety_result")
      case True
      have "script_run inp' ?W = (Completed, ?W)" for inp'
        using basic True by (intro halted_run) simp_all
      with t Inr f basic True show ?thesis by auto
    next
      case False
      have d: "dream_text (sess ?W) = t" using basic(2) False by simp
      have idle: "script_run inp1 ?W = (Completed, ?W)" if "\<not> click_analyze inp1" for inp1
        using basic(3-5) that by (rule unconfirmed_run_idle)
      have go: "fst (script_run inp1 ?W) = Rerun \<and>
          analysis_started (sess (snd (script_run inp1 ?W))) \<and>
          (\<forall>inp2. new_events inp2 (snd (script_run inp1 ?W)) = [GenerateReport t] \<and>
             (\<forall>report. generate_report_with_rag (retriever_present inp2) t (report_chain inp2) =
                  Inr report \<longrightarrow>
                fst (script_run inp2 (snd (script_run inp1 ?W))) = Rerun \<and>
                dream_report (sess (snd (script_run inp2 (snd (script_run inp1 ?W))))) =
                  Some report))"
        if c: "click_analyze inp1" for inp1
      proof -
        let ?V = "?W\<lparr>sess := (sess ?W)\<lparr>analysis_started := True\<rparr>\<rparr>"
        have r: "script_run inp1 ?W = (Rerun, ?V)"
          using basic(3) _ _ basic(4) c
          by (rule confirm_sets_started) (simp_all add: d basic(1) t(2))
        have v: "audio_processed (sess ?V)" "analysis_started (sess ?V)"
          "dream_report (sess ?V) = None" "original_dream_text (sess ?V) \<noteq> []"
          "original_dream_text (sess ?V) = t"
          using basic t(2) by simp_all
        have ev: "new_events inp2 ?V = [GenerateReport t]" for inp2
          using started_generates_events [OF v(1-4), of inp2] v(5) by simp
        have rep: "fst (script_run inp2 ?V) = Rerun \<and>
                   dream_report (sess (snd (script_run inp2 ?V))) = Some report"
          if "generate_report_with_rag (retriever_present inp2) t (report_chain inp2) = Inr report"
          for inp2 report
          using started_generates_report [OF v(1-4), of inp2 report] that v(5) by simp
        show ?thesis unfolding r using ev rep by simp
      qed
      from t Inr f basic(1,3) d False idle go show ?thesis by auto
    qed
  qed
qed


theorem transcription_failure_text_is_moderated_witness:
  "is_Exception (Exn APIConnectionError ''Connection error.'') \<and>
   stt_api stt_failure_inputs = Inl (Exn APIConnectionError ''Connection error.'') \<and>
   audio_input stt_failure_inputs = Some ([82, 73, 70, 70], ''recorded_dream.wav'') \<and>
   \<not> audio_processed (sess (initial_world {})) \<and>
   temp_file stt_failure_inputs = TempOk ''/tmp/tmpa1.wav'' \<and>
   original_dream_text (sess (snd (audio_block stt_failure_inputs (initial_world {})))) =
     stt_connection_error \<and>
   dream_text (sess (snd (audio_block stt_failure_inputs (initial_world {})))) =
     stt_connection_error \<and>
   click_analyze analyze_inputs \<and>
   new_events audio_inputs
     (snd (script_run analyze_inputs (snd (audio_block stt_failure_inputs (initial_world {}))))) =
     [GenerateReport stt_connection_error] \<and>
   dream_report (sess (snd (script_run audio_inputs
     (snd (script_run analyze_inputs (snd (audio_block stt_failure_inputs (initial_world {})))))))) =
     Some fear_report"
proof -
  let ?W = "snd (audio_block stt_failure_inputs (initial_world {}))"
  have e: "is_Exception (Exn APIConnectionError ''Connection error.'')"
    by (simp add: is_Exception_def)
  have s: "stt_api stt_failure_inputs = Inl (Exn APIConnectionError ''Connection error.'')"
    by (simp add: concrete_inputs)
  have a: "audio_input stt_failure_inputs = Some ([82, 73, 70, 70], ''recorded_dream.wav'')"
    by (simp add: audio_input_def concrete_inputs)
  have b: "[82, 73, 70, 70] \<noteq> ([]::nat list)" by simp
  have c: "\<not> audio_processed (sess (initial_world {}))"
    by (simp add: initial_world_def session_defaults_def)
  have d: "temp_file stt_failure_inputs = TempOk ''/tmp/tmpa1.wav''"
    by (simp add: concrete_inputs)
  have m: "check_text_safety stt_connection_error (moderation_api stt_failure_inputs) =
     Inr \<lparr>flagged = False, sr_text = moderation_safe,
          sr_details = Dump \<lparr>mr_flagged = False, categories = [(''violence'', False)]\<rparr>\<rparr>"
    by (simp add: check_text_safety_def concrete_inputs)
  have ck: "click_analyze analyze_inputs" by (simp add: concrete_inputs)
  have g: "generate_report_with_rag (retriever_present audio_inputs) stt_connection_error
             (report_chain audio_inputs) = Inr fear_report"
    by (simp add: generate_report_with_rag_def concrete_inputs)
  from transcription_failure_text_is_moderated [OF e s a b c d]
  obtain t where t: "transcribe_audio (insert ''/tmp/tmpa1.wav'' (files (initial_world {})))
        ''/tmp/tmpa1.wav'' (Inl (Exn APIConnectionError ''Connection error.'')) = Inr t"
    and o: "original_dream_text (sess ?W) = t"
    and k: "(case check_text_safety t (moderation_api stt_failure_inputs) of
              Inr safety_result \<Rightarrow>
                dream_text (sess ?W) = (if flagged safety_result then [] else t) \<and>
                audio_processed (sess ?W) \<and>
                fst (audio_block stt_failure_inputs (initial_world {})) = Some Rerun \<and>
                (if flagged safety_result then
                   (\<forall>inp'. script_run inp' ?W = (Completed, ?W))
                 else
                   (\<forall>inp1.
                      (\<not> click_analyze inp1 \<longrightarrow> script_run inp1 ?W = (Completed, ?W)) \<and>
                      (click_analyze inp1 \<longrightarrow>
                         fst (script_run inp1 ?W) = Rerun \<and>
                         analysis_started (sess (snd (script_run inp1 ?W))) \<and>
                         (\<forall>inp2.
                            new_events inp2 (snd (script_run inp1 ?W)) = [GenerateReport t] \<and>
                            (\<forall>report.
                               generate_report_with_rag (retriever_present inp2) t
                                 (report_chain inp2) = Inr report \<longrightarrow>
                               fst (script_run inp2 (snd (script_run inp1 ?W))) = Rerun \<and>
                               dream_report (sess (snd (script_run inp2
                                 (snd (script_run inp1 ?W))))) = Some report)))))
            | Inl e' \<Rightarrow> dream_text (sess ?W) = [] \<and> \<not> audio_processed (sess ?W))"
    by blast
  from t have t': "t = stt_connection_error" by (simp add: stt_failure_text)
  from k have dt: "dream_text (sess ?W) = stt_connection_error"
    and al: "\<forall>inp1.
       (\<not> click_analyze inp1 \<longrightarrow> script_run inp1 ?W = (Completed, ?W)) \<and>
       (click_analyze inp1 \<longrightarrow>
          fst (script_run inp1 ?W) = Rerun \<and>
          analysis_started (sess (snd (script_run inp1 ?W))) \<and>
          (\<forall>inp2.
             new_events inp2 (snd (script_run inp1 ?W)) = [GenerateReport stt_connection_error] \<and>
             (\<forall>report.
                generate_report_with_rag (retriever_present inp2) stt_connection_error
                  (report_chain inp2) = Inr report \<longrightarrow>
                fst (script_run inp2 (snd (script_run inp1 ?W))) = Rerun \<and>
                dream_report (sess (snd (script_run inp2 (snd (script_run inp1 ?W))))) =
                  Some report)))"
    unfolding t' m by simp_all
  from al ck have ev: "new_events audio_inputs (snd (script_run analyze_inputs ?W)) =
      [GenerateReport stt_connection_error]"
    by blast
  from al ck g have rp: "dream_report (sess (snd (script_run audio_inputs
      (snd (script_run analyze_inputs ?W))))) = Some fear_report"
    by blast
  from o t' dt ev rp e s a c d ck show ?thesis by blast
qed

end
